theory Spec2Isabelle
  imports Main
begin

section \<open>Messages of the three services\<close>

text \<open>
  The message types of \<^verbatim>\<open>godel_msgs\<close> are declared outside the service file. Parameter
  groups, markers, pose arrays, point clouds, meshes and surface identifiers are only copied
  and compared by the service, so they stay type variables:
  \<open>'sp\<close> scan parameters, \<open>'dp\<close> detection parameters, \<open>'n\<close> the numeric type of the
  blending-plan fields, \<open>'mk\<close> a marker, \<open>'ps\<close> a pose array, \<open>'pc\<close> a point cloud,
  \<open>'ms\<close> a mesh, \<open>'id\<close> a surface identifier.
  A \<^verbatim>\<open>MarkerArray\<close> is its \<^verbatim>\<open>markers\<close> vector, a list; the default-constructed array is \<open>[]\<close>.

  The \<^verbatim>\<open>action\<close> field of a request is an integer compared with the named constants of the
  message; a value that matches no \<^verbatim>\<open>case\<close> label of the \<^verbatim>\<open>switch\<close> is \<open>OTHER_ACTION\<close>.
\<close>

datatype Action =
    GET_CURRENT_PARAMETERS
  | GET_DEFAULT_PARAMETERS
  | PUBLISH_SCAN_PATH
  | SCAN_AND_FIND_ONLY
  | SCAN_FIND_AND_RETURN
  | FIND_ONLY
  | FIND_AND_RETURN
  | RETURN_LATEST_RESULTS
  | OTHER_ACTION

record ('sp, 'dp) SurfaceDetection_Request =
  action :: Action
  use_default_parameters :: bool
  req_robot_scan :: 'sp
  req_surface_detection :: 'dp

record ('sp, 'dp, 'mk, 'ps) SurfaceDetection_Response =
  surfaces_found :: bool
  surfaces :: "'mk list"
  robot_scan :: 'sp
  surface_detection :: 'dp
  robot_scan_poses :: 'ps

datatype SelectAction =
    SELECT
  | DESELECT
  | SELECT_ALL
  | DESELECT_ALL
  | HIDE_ALL
  | SHOW_ALL
  | OTHER_SELECT_ACTION

record 'id SelectSurface_Request =
  select_action :: SelectAction
  select_surfaces :: "'id list"

text \<open>The nine fields read by \<^verbatim>\<open>load_blending_parameters\<close>.\<close>

record 'n BlendingPlanParameters =
  tool_radius :: 'n
  margin :: 'n
  overlap :: 'n
  approach_spd :: 'n
  blending_spd :: 'n
  retract_spd :: 'n
  traverse_spd :: 'n
  discretization :: 'n
  safe_traverse_height :: 'n

datatype ParametersAction =
    BP_GET_CURRENT_PARAMETERS
  | BP_GET_DEFAULT_PARAMETERS
  | BP_OTHER_ACTION

record SurfaceBlendingParameters_Request =
  bp_action :: ParametersAction

record ('sp, 'dp, 'n) SurfaceBlendingParameters_Response =
  bp_surface_detection :: 'dp
  bp_robot_scan :: 'sp
  bp_blending_plan :: "'n BlendingPlanParameters"

section \<open>The collaborators\<close>

text \<open>
  \<^verbatim>\<open>RobotScan\<close>, \<^verbatim>\<open>SurfaceDetection\<close> and \<^verbatim>\<open>InteractiveSurfaceServer\<close> are classes whose code
  is not part of the service file. Each object is its public \<^verbatim>\<open>params_\<close> member, kept in the
  service state, and the rest of the object, a value of an arbitrary type
  (\<open>'rs\<close>, \<open>'sd\<close>, \<open>'ss\<close>). Their member functions are the fields of the record below and
  every theorem holds for all of them.

  The member functions are taken as they appear at their call sites, with the separation
  of sections 2 and 4.1 of the specification (the parameter groups belong to the parameter
  store, the stages are reached through narrow contracts): a member function reads the
  \<^verbatim>\<open>params_\<close> of its object and changes only the rest of the object; the only writers of
  \<^verbatim>\<open>params_\<close> are \<^verbatim>\<open>load_parameters\<close> and the service itself. A getter with an output
  argument returns the value it stores there. \<^verbatim>\<open>RobotScan::scan\<close> runs the registered scan
  callbacks (\<^verbatim>\<open>SurfaceDetection::add_cloud\<close>), so it also changes the detection object.
  \<open>get_bool_param\<close> and \<open>get_num_param\<close> are the lookups of the parameter server.
  \<open>empty_cloud\<close> is the default-constructed \<^verbatim>\<open>sensor_msgs::PointCloud2()\<close>.
\<close>

record ('sp, 'dp, 'n, 'mk, 'ps, 'pc, 'ms, 'id, 'rs, 'sd, 'ss) stages =
  rs_load_parameters :: "string \<Rightarrow> 'sp \<Rightarrow> 'rs \<Rightarrow> bool \<times> 'sp \<times> 'rs"
  rs_init :: "'sp \<Rightarrow> 'rs \<Rightarrow> bool \<times> 'rs"
  rs_add_scan_callback :: "'rs \<Rightarrow> 'rs"
  rs_publish_scan_poses :: "string \<Rightarrow> 'sp \<Rightarrow> 'rs \<Rightarrow> 'rs"
  rs_scan :: "bool \<Rightarrow> 'sp \<Rightarrow> 'rs \<Rightarrow> 'dp \<Rightarrow> 'sd \<Rightarrow> int \<times> 'rs \<times> 'sd"
  rs_get_latest_scan_poses :: "'sp \<Rightarrow> 'rs \<Rightarrow> 'ps"
  sd_load_parameters :: "string \<Rightarrow> 'dp \<Rightarrow> 'sd \<Rightarrow> bool \<times> 'dp \<times> 'sd"
  sd_init :: "'dp \<Rightarrow> 'sd \<Rightarrow> bool \<times> 'sd"
  sd_clear_results :: "'dp \<Rightarrow> 'sd \<Rightarrow> 'sd"
  sd_find_surfaces :: "'dp \<Rightarrow> 'sd \<Rightarrow> bool \<times> 'sd"
  sd_get_meshes :: "'dp \<Rightarrow> 'sd \<Rightarrow> 'ms list"
  sd_get_surface_markers :: "'dp \<Rightarrow> 'sd \<Rightarrow> 'mk list"
  sd_get_region_colored_cloud :: "'dp \<Rightarrow> 'sd \<Rightarrow> 'pc"
  ss_load_parameters :: "'ss \<Rightarrow> bool \<times> 'ss"
  ss_init :: "'ss \<Rightarrow> bool \<times> 'ss"
  ss_add_selection_callback :: "'ss \<Rightarrow> 'ss"
  ss_remove_all_surfaces :: "'ss \<Rightarrow> 'ss"
  ss_add_surface :: "'ms \<Rightarrow> 'ss \<Rightarrow> 'ss"
  ss_set_selection_flag :: "'id \<Rightarrow> bool \<Rightarrow> 'ss \<Rightarrow> 'ss"
  ss_select_all :: "bool \<Rightarrow> 'ss \<Rightarrow> 'ss"
  ss_show_all :: "bool \<Rightarrow> 'ss \<Rightarrow> 'ss"
  ss_get_selected_list :: "'ss \<Rightarrow> 'id list"
  get_bool_param :: "string \<Rightarrow> bool option"
  get_num_param :: "string \<Rightarrow> string \<Rightarrow> 'n option"
  empty_cloud :: 'pc

section \<open>The service object\<close>

text \<open>
  The members of \<^verbatim>\<open>SurfaceDetectionService\<close> that the request handlers read or write. The
  ROS handles of the class (servers, client, publishers) and the mesh importer are left
  out, as are the methods \<^verbatim>\<open>run\<close>, \<^verbatim>\<open>publish_selected_surfaces_changed\<close> and
  \<^verbatim>\<open>process_path_server_callback\<close>, which assign to none of the members kept here.

  The calls the service makes on its stages are effects; \<open>calls\<close> records them in order,
  with the value a call returned where the service branches on it. It is the only field
  that is not a member of the class.
\<close>

datatype stage_call =
    PublishScanPoses
  | ClearResults
  | Scan int
  | FindSurfaces bool
  | RemoveAllSurfaces
  | AddSurface
  | SetSelectionFlag bool
  | SelectAll bool
  | ShowAll bool

record ('sp, 'dp, 'n, 'mk, 'ps, 'pc, 'rs, 'sd, 'ss) SurfaceDetectionService =
  robot_scan_params :: 'sp
  robot_scan_impl :: 'rs
  surface_detection_params :: 'dp
  surface_detection_impl :: 'sd
  surface_server :: 'ss
  default_robot_scan_params :: 'sp
  default_surf_detection_params :: 'dp
  default_blending_plan_params :: "'n BlendingPlanParameters"
  blending_plan_params :: "'n BlendingPlanParameters"
  latest_surface_detection_results :: "('sp, 'dp, 'mk, 'ps) SurfaceDetection_Response"
  publish_region_point_cloud :: bool
  region_cloud_msg :: 'pc
  calls :: "stage_call list"

definition ROBOT_SCAN_PATH_PREVIEW_TOPIC :: string where
  "ROBOT_SCAN_PATH_PREVIEW_TOPIC = ''robot_scan_path_preview''"

definition PUBLISH_REGION_POINT_CLOUD :: string where
  "PUBLISH_REGION_POINT_CLOUD = ''publish_region_point_cloud''"

subsection \<open>Calls on the stages\<close>

text \<open>
  One definition for each member function the request handlers call on a stage object: the
  object changes as the stage says and the call is recorded. \<open>detect_surfaces\<close> is the call
  \<^verbatim>\<open>surface_detection_.find_surfaces()\<close>; the name \<open>find_surfaces\<close> is the method of the
  service.
\<close>

definition publish_scan_poses ::
  "('sp, 'dp, 'n, 'mk, 'ps, 'pc, 'ms, 'id, 'rs, 'sd, 'ss) stages
     \<Rightarrow> ('sp, 'dp, 'n, 'mk, 'ps, 'pc, 'rs, 'sd, 'ss) SurfaceDetectionService
     \<Rightarrow> ('sp, 'dp, 'n, 'mk, 'ps, 'pc, 'rs, 'sd, 'ss) SurfaceDetectionService" where
  "publish_scan_poses stg s =
     s\<lparr>robot_scan_impl :=
         rs_publish_scan_poses stg ROBOT_SCAN_PATH_PREVIEW_TOPIC (robot_scan_params s) (robot_scan_impl s),
       calls := calls s @ [PublishScanPoses]\<rparr>"

definition clear_results ::
  "('sp, 'dp, 'n, 'mk, 'ps, 'pc, 'ms, 'id, 'rs, 'sd, 'ss) stages
     \<Rightarrow> ('sp, 'dp, 'n, 'mk, 'ps, 'pc, 'rs, 'sd, 'ss) SurfaceDetectionService
     \<Rightarrow> ('sp, 'dp, 'n, 'mk, 'ps, 'pc, 'rs, 'sd, 'ss) SurfaceDetectionService" where
  "clear_results stg s =
     s\<lparr>surface_detection_impl := sd_clear_results stg (surface_detection_params s) (surface_detection_impl s),
       calls := calls s @ [ClearResults]\<rparr>"

definition scan ::
  "('sp, 'dp, 'n, 'mk, 'ps, 'pc, 'ms, 'id, 'rs, 'sd, 'ss) stages
     \<Rightarrow> bool
     \<Rightarrow> ('sp, 'dp, 'n, 'mk, 'ps, 'pc, 'rs, 'sd, 'ss) SurfaceDetectionService
     \<Rightarrow> int \<times> ('sp, 'dp, 'n, 'mk, 'ps, 'pc, 'rs, 'sd, 'ss) SurfaceDetectionService" where
  "scan stg move_only s =
     (case rs_scan stg move_only (robot_scan_params s) (robot_scan_impl s)
             (surface_detection_params s) (surface_detection_impl s) of
        (n, rs, sd) \<Rightarrow>
          (n, s\<lparr>robot_scan_impl := rs, surface_detection_impl := sd, calls := calls s @ [Scan n]\<rparr>))"

definition detect_surfaces ::
  "('sp, 'dp, 'n, 'mk, 'ps, 'pc, 'ms, 'id, 'rs, 'sd, 'ss) stages
     \<Rightarrow> ('sp, 'dp, 'n, 'mk, 'ps, 'pc, 'rs, 'sd, 'ss) SurfaceDetectionService
     \<Rightarrow> bool \<times> ('sp, 'dp, 'n, 'mk, 'ps, 'pc, 'rs, 'sd, 'ss) SurfaceDetectionService" where
  "detect_surfaces stg s =
     (case sd_find_surfaces stg (surface_detection_params s) (surface_detection_impl s) of
        (b, sd) \<Rightarrow> (b, s\<lparr>surface_detection_impl := sd, calls := calls s @ [FindSurfaces b]\<rparr>))"

definition remove_all_surfaces ::
  "('sp, 'dp, 'n, 'mk, 'ps, 'pc, 'ms, 'id, 'rs, 'sd, 'ss) stages
     \<Rightarrow> ('sp, 'dp, 'n, 'mk, 'ps, 'pc, 'rs, 'sd, 'ss) SurfaceDetectionService
     \<Rightarrow> ('sp, 'dp, 'n, 'mk, 'ps, 'pc, 'rs, 'sd, 'ss) SurfaceDetectionService" where
  "remove_all_surfaces stg s =
     s\<lparr>surface_server := ss_remove_all_surfaces stg (surface_server s),
       calls := calls s @ [RemoveAllSurfaces]\<rparr>"

definition add_surface ::
  "('sp, 'dp, 'n, 'mk, 'ps, 'pc, 'ms, 'id, 'rs, 'sd, 'ss) stages \<Rightarrow> 'ms
     \<Rightarrow> ('sp, 'dp, 'n, 'mk, 'ps, 'pc, 'rs, 'sd, 'ss) SurfaceDetectionService
     \<Rightarrow> ('sp, 'dp, 'n, 'mk, 'ps, 'pc, 'rs, 'sd, 'ss) SurfaceDetectionService" where
  "add_surface stg mesh s =
     s\<lparr>surface_server := ss_add_surface stg mesh (surface_server s),
       calls := calls s @ [AddSurface]\<rparr>"

definition set_selection_flag ::
  "('sp, 'dp, 'n, 'mk, 'ps, 'pc, 'ms, 'id, 'rs, 'sd, 'ss) stages \<Rightarrow> 'id
     \<Rightarrow> bool
     \<Rightarrow> ('sp, 'dp, 'n, 'mk, 'ps, 'pc, 'rs, 'sd, 'ss) SurfaceDetectionService
     \<Rightarrow> ('sp, 'dp, 'n, 'mk, 'ps, 'pc, 'rs, 'sd, 'ss) SurfaceDetectionService" where
  "set_selection_flag stg name flag s =
     s\<lparr>surface_server := ss_set_selection_flag stg name flag (surface_server s),
       calls := calls s @ [SetSelectionFlag flag]\<rparr>"

definition select_all ::
  "('sp, 'dp, 'n, 'mk, 'ps, 'pc, 'ms, 'id, 'rs, 'sd, 'ss) stages \<Rightarrow> bool
     \<Rightarrow> ('sp, 'dp, 'n, 'mk, 'ps, 'pc, 'rs, 'sd, 'ss) SurfaceDetectionService
     \<Rightarrow> ('sp, 'dp, 'n, 'mk, 'ps, 'pc, 'rs, 'sd, 'ss) SurfaceDetectionService" where
  "select_all stg flag s =
     s\<lparr>surface_server := ss_select_all stg flag (surface_server s),
       calls := calls s @ [SelectAll flag]\<rparr>"

definition show_all ::
  "('sp, 'dp, 'n, 'mk, 'ps, 'pc, 'ms, 'id, 'rs, 'sd, 'ss) stages \<Rightarrow> bool
     \<Rightarrow> ('sp, 'dp, 'n, 'mk, 'ps, 'pc, 'rs, 'sd, 'ss) SurfaceDetectionService
     \<Rightarrow> ('sp, 'dp, 'n, 'mk, 'ps, 'pc, 'rs, 'sd, 'ss) SurfaceDetectionService" where
  "show_all stg flag s =
     s\<lparr>surface_server := ss_show_all stg flag (surface_server s),
       calls := calls s @ [ShowAll flag]\<rparr>"

subsection \<open>\<^verbatim>\<open>find_surfaces\<close> and \<^verbatim>\<open>run_robot_scan\<close>\<close>

text \<open>
  The loop \<^verbatim>\<open>for(int i = 0; i < meshes.size(); i++) surface_server_.add_surface(meshes[i])\<close>.
  The vector has fewer than \<open>2^31\<close> elements, so the counter is a natural number.
\<close>

function add_meshes ::
  "('sp, 'dp, 'n, 'mk, 'ps, 'pc, 'ms, 'id, 'rs, 'sd, 'ss) stages \<Rightarrow> 'ms list
     \<Rightarrow> nat
     \<Rightarrow> ('sp, 'dp, 'n, 'mk, 'ps, 'pc, 'rs, 'sd, 'ss) SurfaceDetectionService
     \<Rightarrow> ('sp, 'dp, 'n, 'mk, 'ps, 'pc, 'rs, 'sd, 'ss) SurfaceDetectionService" where
  "add_meshes stg meshes i s =
     (if i < length meshes then add_meshes stg meshes (Suc i) (add_surface stg (meshes ! i) s)
      else s)"
  by pat_completeness auto
termination
  by (relation "measure (\<lambda>(stg, meshes, i, s). length meshes - i)") auto

declare add_meshes.simps [simp del]

text \<open>
  \<^verbatim>\<open>find_surfaces(surfaces)\<close> returns its result, the output argument and the new service
  object. The markers are inserted at the front of the output argument.
\<close>

definition find_surfaces ::
  "('sp, 'dp, 'n, 'mk, 'ps, 'pc, 'ms, 'id, 'rs, 'sd, 'ss) stages
     \<Rightarrow> 'mk list
     \<Rightarrow> ('sp, 'dp, 'n, 'mk, 'ps, 'pc, 'rs, 'sd, 'ss) SurfaceDetectionService
     \<Rightarrow> bool
          \<times> 'mk list
          \<times> ('sp, 'dp, 'n, 'mk, 'ps, 'pc, 'rs, 'sd, 'ss) SurfaceDetectionService" where
  "find_surfaces stg surfaces_arg s =
     (case detect_surfaces stg s of
        (found, s1) \<Rightarrow>
          if found then
            (let s2 = remove_all_surfaces stg s1;
                 meshes = sd_get_meshes stg (surface_detection_params s2) (surface_detection_impl s2);
                 s3 = add_meshes stg meshes 0 s2;
                 markers_msg = sd_get_surface_markers stg (surface_detection_params s3) (surface_detection_impl s3);
                 surfaces_out = markers_msg @ surfaces_arg;
                 s4 = s3\<lparr>latest_surface_detection_results :=
                          (latest_surface_detection_results s3)
                            \<lparr>surface_detection := surface_detection_params s3,
                             surfaces_found := True,
                             surfaces := surfaces_out,
                             robot_scan_poses :=
                               rs_get_latest_scan_poses stg (robot_scan_params s3) (robot_scan_impl s3)\<rparr>\<rparr>;
                 s5 = s4\<lparr>region_cloud_msg :=
                          sd_get_region_colored_cloud stg (surface_detection_params s4) (surface_detection_impl s4)\<rparr>
             in (True, surfaces_out, s5))
          else (False, surfaces_arg, s1\<lparr>region_cloud_msg := empty_cloud stg\<rparr>))"

definition run_robot_scan ::
  "('sp, 'dp, 'n, 'mk, 'ps, 'pc, 'ms, 'id, 'rs, 'sd, 'ss) stages
     \<Rightarrow> 'mk list
     \<Rightarrow> ('sp, 'dp, 'n, 'mk, 'ps, 'pc, 'rs, 'sd, 'ss) SurfaceDetectionService
     \<Rightarrow> bool
          \<times> 'mk list
          \<times> ('sp, 'dp, 'n, 'mk, 'ps, 'pc, 'rs, 'sd, 'ss) SurfaceDetectionService" where
  "run_robot_scan stg surfaces_arg s =
     (case scan stg False (clear_results stg (publish_scan_poses stg s)) of
        (scans_completed, s1) \<Rightarrow>
          if scans_completed > 0 then find_surfaces stg surfaces_arg s1
          else (False, surfaces_arg, s1))"

subsection \<open>\<^verbatim>\<open>surface_detection_server_callback\<close>\<close>

text \<open>
  The callback receives the request and the response object to fill; it returns its
  \<^verbatim>\<open>bool\<close> result, the response and the new service object.
\<close>

definition surface_detection_server_callback ::
  "('sp, 'dp, 'n, 'mk, 'ps, 'pc, 'ms, 'id, 'rs, 'sd, 'ss) stages
     \<Rightarrow> ('sp, 'dp) SurfaceDetection_Request
     \<Rightarrow> ('sp, 'dp, 'mk, 'ps) SurfaceDetection_Response
     \<Rightarrow> ('sp, 'dp, 'n, 'mk, 'ps, 'pc, 'rs, 'sd, 'ss) SurfaceDetectionService
     \<Rightarrow> bool
          \<times> ('sp, 'dp, 'mk, 'ps) SurfaceDetection_Response
          \<times> ('sp, 'dp, 'n, 'mk, 'ps, 'pc, 'rs, 'sd, 'ss) SurfaceDetectionService" where
  "surface_detection_server_callback stg req res_arg s =
     (let res = res_arg\<lparr>surfaces_found := False, surfaces := []\<rparr> in
      case action req of
        GET_CURRENT_PARAMETERS \<Rightarrow>
          (True,
           res\<lparr>robot_scan := robot_scan_params s, surface_detection := surface_detection_params s\<rparr>,
           s)
      | GET_DEFAULT_PARAMETERS \<Rightarrow>
          (True,
           res\<lparr>robot_scan := default_robot_scan_params s,
               surface_detection := default_surf_detection_params s\<rparr>,
           s)
      | PUBLISH_SCAN_PATH \<Rightarrow>
          (let s1 = (if use_default_parameters req
                     then s\<lparr>robot_scan_params := default_robot_scan_params s\<rparr>
                     else s\<lparr>robot_scan_params := req_robot_scan req\<rparr>)
           in (True, res, publish_scan_poses stg s1))
      | SCAN_AND_FIND_ONLY \<Rightarrow>
          (let s1 = (if use_default_parameters req
                     then s\<lparr>robot_scan_params := default_robot_scan_params s,
                            surface_detection_params := default_surf_detection_params s\<rparr>
                     else s\<lparr>robot_scan_params := req_robot_scan req,
                            surface_detection_params := req_surface_detection req\<rparr>)
           in case run_robot_scan stg (surfaces res) s1 of
                (found, surfaces_out, s2) \<Rightarrow>
                  (True, res\<lparr>surfaces_found := found, surfaces := []\<rparr>, s2))
      | SCAN_FIND_AND_RETURN \<Rightarrow>
          (let s1 = (if use_default_parameters req
                     then s\<lparr>robot_scan_params := default_robot_scan_params s,
                            surface_detection_params := default_surf_detection_params s\<rparr>
                     else s\<lparr>robot_scan_params := req_robot_scan req,
                            surface_detection_params := req_surface_detection req\<rparr>)
           in case run_robot_scan stg (surfaces res) s1 of
                (found, surfaces_out, s2) \<Rightarrow>
                  (True, res\<lparr>surfaces_found := found, surfaces := surfaces_out\<rparr>, s2))
      | FIND_ONLY \<Rightarrow>
          (let s1 = (if use_default_parameters req
                     then s\<lparr>surface_detection_params := default_surf_detection_params s\<rparr>
                     else s\<lparr>surface_detection_params := req_surface_detection req\<rparr>)
           in case find_surfaces stg (surfaces res) s1 of
                (found, surfaces_out, s2) \<Rightarrow>
                  (True, res\<lparr>surfaces_found := found, surfaces := []\<rparr>, s2))
      | FIND_AND_RETURN \<Rightarrow>
          (let s1 = (if use_default_parameters req
                     then s\<lparr>surface_detection_params := default_surf_detection_params s\<rparr>
                     else s\<lparr>surface_detection_params := req_surface_detection req\<rparr>)
           in case find_surfaces stg (surfaces res) s1 of
                (found, surfaces_out, s2) \<Rightarrow>
                  (True, res\<lparr>surfaces_found := found, surfaces := surfaces_out\<rparr>, s2))
      | RETURN_LATEST_RESULTS \<Rightarrow> (True, latest_surface_detection_results s, s)
      | OTHER_ACTION \<Rightarrow> (True, res, s))"

subsection \<open>\<^verbatim>\<open>select_surface_server_callback\<close>\<close>

text \<open>
  Reading a vector past its end is undefined behaviour in C++: the call has no result.
\<close>

datatype fault = IndexOutOfRange

text \<open>
  The loops of the \<^verbatim>\<open>SELECT\<close> and \<^verbatim>\<open>DESELECT\<close> branches,
  \<^verbatim>\<open>for(int i = 0; req.select_surfaces.size(); i++)
     surface_server_.set_selection_flag(req.select_surfaces[i], flag)\<close>:
  the condition is the size of the vector, true when the vector is not empty, and does not
  mention the counter. The body reads element \<open>i\<close>.
\<close>

function select_loop ::
  "('sp, 'dp, 'n, 'mk, 'ps, 'pc, 'ms, 'id, 'rs, 'sd, 'ss) stages
     \<Rightarrow> 'id list
     \<Rightarrow> bool
     \<Rightarrow> nat
     \<Rightarrow> ('sp, 'dp, 'n, 'mk, 'ps, 'pc, 'rs, 'sd, 'ss) SurfaceDetectionService
     \<Rightarrow> fault + ('sp, 'dp, 'n, 'mk, 'ps, 'pc, 'rs, 'sd, 'ss) SurfaceDetectionService" where
  "select_loop stg select_surfaces_arg flag i s =
     (if length select_surfaces_arg \<noteq> 0 then
        (if i < length select_surfaces_arg
         then select_loop stg select_surfaces_arg flag (Suc i)
                (set_selection_flag stg (select_surfaces_arg ! i) flag s)
         else Inl IndexOutOfRange)
      else Inr s)"
  by pat_completeness auto
termination
  by (relation "measure (\<lambda>(stg, xs, flag, i, s). length xs - i)") auto

declare select_loop.simps [simp del]

definition select_surface_server_callback ::
  "('sp, 'dp, 'n, 'mk, 'ps, 'pc, 'ms, 'id, 'rs, 'sd, 'ss) stages
     \<Rightarrow> 'id SelectSurface_Request
     \<Rightarrow> ('sp, 'dp, 'n, 'mk, 'ps, 'pc, 'rs, 'sd, 'ss) SurfaceDetectionService
     \<Rightarrow> fault + (bool \<times> ('sp, 'dp, 'n, 'mk, 'ps, 'pc, 'rs, 'sd, 'ss) SurfaceDetectionService)" where
  "select_surface_server_callback stg req s =
     (case select_action req of
        SELECT \<Rightarrow>
          (case select_loop stg (select_surfaces req) True 0 s of
             Inl e \<Rightarrow> Inl e
           | Inr s1 \<Rightarrow> Inr (True, s1))
      | DESELECT \<Rightarrow>
          (case select_loop stg (select_surfaces req) False 0 s of
             Inl e \<Rightarrow> Inl e
           | Inr s1 \<Rightarrow> Inr (True, s1))
      | SELECT_ALL \<Rightarrow> Inr (True, select_all stg True s)
      | DESELECT_ALL \<Rightarrow> Inr (True, select_all stg False s)
      | HIDE_ALL \<Rightarrow> Inr (True, show_all stg False s)
      | SHOW_ALL \<Rightarrow> Inr (True, show_all stg True s)
      | OTHER_SELECT_ACTION \<Rightarrow> Inr (True, s))"

subsection \<open>\<^verbatim>\<open>surface_blend_parameters_server_callback\<close>\<close>

definition surface_blend_parameters_server_callback ::
  "SurfaceBlendingParameters_Request
     \<Rightarrow> ('sp, 'dp, 'n) SurfaceBlendingParameters_Response
     \<Rightarrow> ('sp, 'dp, 'n, 'mk, 'ps, 'pc, 'rs, 'sd, 'ss) SurfaceDetectionService
     \<Rightarrow> bool
          \<times> ('sp, 'dp, 'n) SurfaceBlendingParameters_Response
          \<times> ('sp, 'dp, 'n, 'mk, 'ps, 'pc, 'rs, 'sd, 'ss) SurfaceDetectionService" where
  "surface_blend_parameters_server_callback req res s =
     (case bp_action req of
        BP_GET_CURRENT_PARAMETERS \<Rightarrow>
          (True,
           res\<lparr>bp_surface_detection := surface_detection_params s,
               bp_robot_scan := robot_scan_params s,
               bp_blending_plan := blending_plan_params s\<rparr>,
           s)
      | BP_GET_DEFAULT_PARAMETERS \<Rightarrow>
          (True,
           res\<lparr>bp_surface_detection := default_surf_detection_params s,
               bp_robot_scan := default_robot_scan_params s,
               bp_blending_plan := default_blending_plan_params s\<rparr>,
           s)
      | BP_OTHER_ACTION \<Rightarrow> (True, res, s))"

subsection \<open>\<^verbatim>\<open>init\<close>\<close>

text \<open>
  \<^verbatim>\<open>nh.getParam(key, field)\<close> on the node handle of namespace \<open>ns\<close>: when the parameter
  exists it is stored in the field and the result is true, otherwise the field is left
  alone. \<open>and_also\<close> is the short-circuit \<^verbatim>\<open>&&\<close> of two such steps.
\<close>

definition getParam ::
  "('sp, 'dp, 'n, 'mk, 'ps, 'pc, 'ms, 'id, 'rs, 'sd, 'ss) stages \<Rightarrow> string
     \<Rightarrow> string \<Rightarrow> ('n \<Rightarrow> 'a \<Rightarrow> 'a) \<Rightarrow> 'a
     \<Rightarrow> bool \<times> 'a" where
  "getParam stg ns key store params =
     (case get_num_param stg ns key of
        None \<Rightarrow> (False, params)
      | Some v \<Rightarrow> (True, store v params))"

definition and_also :: "bool \<times> 'a \<Rightarrow> ('a \<Rightarrow> bool \<times> 'a) \<Rightarrow> bool \<times> 'a" where
  "and_also r f = (if fst r then f (snd r) else r)"

definition load_blending_parameters ::
  "('sp, 'dp, 'n, 'mk, 'ps, 'pc, 'ms, 'id, 'rs, 'sd, 'ss) stages \<Rightarrow> string
     \<Rightarrow> 'n BlendingPlanParameters
     \<Rightarrow> bool \<times> 'n BlendingPlanParameters" where
  "load_blending_parameters stg ns params =
     and_also (and_also (and_also (and_also (and_also (and_also (and_also (and_also
       (getParam stg ns ''tool_radius'' (\<lambda>v p. p\<lparr>tool_radius := v\<rparr>) params)
       (getParam stg ns ''margin'' (\<lambda>v p. p\<lparr>margin := v\<rparr>)))
       (getParam stg ns ''overlap'' (\<lambda>v p. p\<lparr>overlap := v\<rparr>)))
       (getParam stg ns ''approach_spd'' (\<lambda>v p. p\<lparr>approach_spd := v\<rparr>)))
       (getParam stg ns ''blending_spd'' (\<lambda>v p. p\<lparr>blending_spd := v\<rparr>)))
       (getParam stg ns ''retract_spd'' (\<lambda>v p. p\<lparr>retract_spd := v\<rparr>)))
       (getParam stg ns ''traverse_spd'' (\<lambda>v p. p\<lparr>traverse_spd := v\<rparr>)))
       (getParam stg ns ''discretization'' (\<lambda>v p. p\<lparr>discretization := v\<rparr>)))
       (getParam stg ns ''safe_traverse_height'' (\<lambda>v p. p\<lparr>safe_traverse_height := v\<rparr>))"

text \<open>
  The condition of the outer \<^verbatim>\<open>if\<close> of \<^verbatim>\<open>init\<close>: the four loads, each made only when the
  ones before it succeeded.
\<close>

definition load_all_parameters ::
  "('sp, 'dp, 'n, 'mk, 'ps, 'pc, 'ms, 'id, 'rs, 'sd, 'ss) stages
     \<Rightarrow> ('sp, 'dp, 'n, 'mk, 'ps, 'pc, 'rs, 'sd, 'ss) SurfaceDetectionService
     \<Rightarrow> bool \<times> ('sp, 'dp, 'n, 'mk, 'ps, 'pc, 'rs, 'sd, 'ss) SurfaceDetectionService" where
  "load_all_parameters stg s =
     and_also (and_also (and_also
       (case sd_load_parameters stg ''~/surface_detection''
               (surface_detection_params s) (surface_detection_impl s) of
          (ok, dp, sd) \<Rightarrow> (ok, s\<lparr>surface_detection_params := dp, surface_detection_impl := sd\<rparr>))
       (\<lambda>s. case rs_load_parameters stg ''~/robot_scan'' (robot_scan_params s) (robot_scan_impl s) of
          (ok, sp, rs) \<Rightarrow> (ok, s\<lparr>robot_scan_params := sp, robot_scan_impl := rs\<rparr>)))
       (\<lambda>s. case load_blending_parameters stg ''~/blending_plan'' (blending_plan_params s) of
          (ok, bp) \<Rightarrow> (ok, s\<lparr>blending_plan_params := bp\<rparr>)))
       (\<lambda>s. case ss_load_parameters stg (surface_server s) of
          (ok, ss) \<Rightarrow> (ok, s\<lparr>surface_server := ss\<rparr>))"

text \<open>The condition of the inner \<^verbatim>\<open>if\<close>: the three stage initialisations.\<close>

definition init_stages ::
  "('sp, 'dp, 'n, 'mk, 'ps, 'pc, 'ms, 'id, 'rs, 'sd, 'ss) stages
     \<Rightarrow> ('sp, 'dp, 'n, 'mk, 'ps, 'pc, 'rs, 'sd, 'ss) SurfaceDetectionService
     \<Rightarrow> bool \<times> ('sp, 'dp, 'n, 'mk, 'ps, 'pc, 'rs, 'sd, 'ss) SurfaceDetectionService" where
  "init_stages stg s =
     and_also (and_also
       (case sd_init stg (surface_detection_params s) (surface_detection_impl s) of
          (ok, sd) \<Rightarrow> (ok, s\<lparr>surface_detection_impl := sd\<rparr>))
       (\<lambda>s. case rs_init stg (robot_scan_params s) (robot_scan_impl s) of
          (ok, rs) \<Rightarrow> (ok, s\<lparr>robot_scan_impl := rs\<rparr>)))
       (\<lambda>s. case ss_init stg (surface_server s) of
          (ok, ss) \<Rightarrow> (ok, s\<lparr>surface_server := ss\<rparr>))"

text \<open>The first statement: \<^verbatim>\<open>ph.getParam(PUBLISH_REGION_POINT_CLOUD, publish_region_point_cloud_)\<close>.\<close>

definition load_publish_region_point_cloud ::
  "('sp, 'dp, 'n, 'mk, 'ps, 'pc, 'ms, 'id, 'rs, 'sd, 'ss) stages
     \<Rightarrow> ('sp, 'dp, 'n, 'mk, 'ps, 'pc, 'rs, 'sd, 'ss) SurfaceDetectionService
     \<Rightarrow> ('sp, 'dp, 'n, 'mk, 'ps, 'pc, 'rs, 'sd, 'ss) SurfaceDetectionService" where
  "load_publish_region_point_cloud stg s =
     (case get_bool_param stg PUBLISH_REGION_POINT_CLOUD of
        None \<Rightarrow> s
      | Some b \<Rightarrow> s\<lparr>publish_region_point_cloud := b\<rparr>)"

definition init ::
  "('sp, 'dp, 'n, 'mk, 'ps, 'pc, 'ms, 'id, 'rs, 'sd, 'ss) stages
     \<Rightarrow> ('sp, 'dp, 'n, 'mk, 'ps, 'pc, 'rs, 'sd, 'ss) SurfaceDetectionService
     \<Rightarrow> bool \<times> ('sp, 'dp, 'n, 'mk, 'ps, 'pc, 'rs, 'sd, 'ss) SurfaceDetectionService" where
  "init stg s =
     (let s3 = (case load_all_parameters stg (load_publish_region_point_cloud stg s) of
                  (loaded, s1) \<Rightarrow>
                    if loaded then
                      (let s2 = s1\<lparr>default_robot_scan_params := robot_scan_params s1,
                                   default_surf_detection_params := surface_detection_params s1,
                                   default_blending_plan_params := blending_plan_params s1\<rparr>
                       in case init_stages stg s2 of
                            (initialized, s') \<Rightarrow>
                              if initialized
                              then s'\<lparr>robot_scan_impl := rs_add_scan_callback stg (robot_scan_impl s')\<rparr>
                              else s')
                    else s1)
      in (True, s3\<lparr>surface_server := ss_add_selection_callback stg (surface_server s3)\<rparr>))"

subsection \<open>Serving a sequence of service calls\<close>

text \<open>
  A call of one of the three advertised services, with the response object the callback
  receives, and what the caller gets back. The calls of a sequence are served one after the
  other; a call that has no result ends the sequence.
\<close>

datatype ('sp, 'dp, 'n, 'mk, 'ps, 'id) service_call =
    SurfaceDetection "('sp, 'dp) SurfaceDetection_Request" "('sp, 'dp, 'mk, 'ps) SurfaceDetection_Response"
  | SelectSurface "'id SelectSurface_Request"
  | SurfaceBlendingParameters SurfaceBlendingParameters_Request "('sp, 'dp, 'n) SurfaceBlendingParameters_Response"

datatype ('sp, 'dp, 'n, 'mk, 'ps) service_reply =
    SurfaceDetectionReply bool "('sp, 'dp, 'mk, 'ps) SurfaceDetection_Response"
  | SelectSurfaceReply bool
  | SurfaceBlendingParametersReply bool "('sp, 'dp, 'n) SurfaceBlendingParameters_Response"

definition serve_call ::
  "('sp, 'dp, 'n, 'mk, 'ps, 'pc, 'ms, 'id, 'rs, 'sd, 'ss) stages
     \<Rightarrow> ('sp, 'dp, 'n, 'mk, 'ps, 'id) service_call
     \<Rightarrow> ('sp, 'dp, 'n, 'mk, 'ps, 'pc, 'rs, 'sd, 'ss) SurfaceDetectionService
     \<Rightarrow> fault + (('sp, 'dp, 'n, 'mk, 'ps) service_reply
          \<times> ('sp, 'dp, 'n, 'mk, 'ps, 'pc, 'rs, 'sd, 'ss) SurfaceDetectionService)" where
  "serve_call stg c s =
     (case c of
        SurfaceDetection req res \<Rightarrow>
          (case surface_detection_server_callback stg req res s of
             (ok, res', s') \<Rightarrow> Inr (SurfaceDetectionReply ok res', s'))
      | SelectSurface req \<Rightarrow>
          (case select_surface_server_callback stg req s of
             Inl e \<Rightarrow> Inl e
           | Inr (ok, s') \<Rightarrow> Inr (SelectSurfaceReply ok, s'))
      | SurfaceBlendingParameters req res \<Rightarrow>
          (case surface_blend_parameters_server_callback req res s of
             (ok, res', s') \<Rightarrow> Inr (SurfaceBlendingParametersReply ok res', s')))"

fun serve ::
  "('sp, 'dp, 'n, 'mk, 'ps, 'pc, 'ms, 'id, 'rs, 'sd, 'ss) stages
     \<Rightarrow> ('sp, 'dp, 'n, 'mk, 'ps, 'id) service_call list
     \<Rightarrow> ('sp, 'dp, 'n, 'mk, 'ps, 'pc, 'rs, 'sd, 'ss) SurfaceDetectionService
     \<Rightarrow> fault + (('sp, 'dp, 'n, 'mk, 'ps) service_reply list
          \<times> ('sp, 'dp, 'n, 'mk, 'ps, 'pc, 'rs, 'sd, 'ss) SurfaceDetectionService)" where
  "serve stg [] s = Inr ([], s)"
| "serve stg (c # cs) s =
     (case serve_call stg c s of
        Inl e \<Rightarrow> Inl e
      | Inr (r, s1) \<Rightarrow>
          (case serve stg cs s1 of
             Inl e \<Rightarrow> Inl e
           | Inr (rs, s2) \<Rightarrow> Inr (r # rs, s2)))"

section \<open>Vocabulary of the properties\<close>

text \<open>The stage calls made between two states of the service object.\<close>

definition new_calls ::
  "('sp, 'dp, 'n, 'mk, 'ps, 'pc, 'rs, 'sd, 'ss) SurfaceDetectionService
     \<Rightarrow> ('sp, 'dp, 'n, 'mk, 'ps, 'pc, 'rs, 'sd, 'ss) SurfaceDetectionService
     \<Rightarrow> stage_call list" where
  "new_calls s s' = drop (length (calls s)) (calls s')"

text \<open>
  The action table of the specification (section 4.2, column "Parameter resolution"): the
  parameter groups an action touches. The blending-plan group is touched by no action.
\<close>

fun touches_scan :: "Action \<Rightarrow> bool" where
  "touches_scan PUBLISH_SCAN_PATH = True"
| "touches_scan SCAN_AND_FIND_ONLY = True"
| "touches_scan SCAN_FIND_AND_RETURN = True"
| "touches_scan _ = False"

fun touches_detection :: "Action \<Rightarrow> bool" where
  "touches_detection SCAN_AND_FIND_ONLY = True"
| "touches_detection SCAN_FIND_AND_RETURN = True"
| "touches_detection FIND_ONLY = True"
| "touches_detection FIND_AND_RETURN = True"
| "touches_detection _ = False"

section \<open>A concrete instance\<close>

text \<open>
  A small instance of the stages, on which the handlers can be run. Parameters, markers,
  meshes and identifiers are natural numbers. The scan parameter is the number of poses
  the scan reaches, each adding one cloud to the detection; detection succeeds when it has
  at least as many clouds as its parameter asks for, and every cloud gives one surface.
  The selection stage is the list of surfaces with their selection flags.
\<close>

definition example_stages ::
  "(nat, nat, nat, nat, nat list, nat list, nat, nat, nat list, nat list, (nat \<times> bool) list) stages" where
  "example_stages =
     \<lparr>rs_load_parameters = (\<lambda>ns sp rs. (True, 3, rs)),
      rs_init = (\<lambda>sp rs. (True, rs)),
      rs_add_scan_callback = (\<lambda>rs. rs),
      rs_publish_scan_poses = (\<lambda>topic sp rs. rs),
      rs_scan = (\<lambda>move_only sp rs dp sd. (int sp, [0..<sp], sd @ [0..<sp])),
      rs_get_latest_scan_poses = (\<lambda>sp rs. rs),
      sd_load_parameters = (\<lambda>ns dp sd. (True, 2, sd)),
      sd_init = (\<lambda>dp sd. (True, sd)),
      sd_clear_results = (\<lambda>dp sd. []),
      sd_find_surfaces = (\<lambda>dp sd. (0 < length sd \<and> dp \<le> length sd, sd)),
      sd_get_meshes = (\<lambda>dp sd. sd),
      sd_get_surface_markers = (\<lambda>dp sd. map (\<lambda>m. 10 + m) sd),
      sd_get_region_colored_cloud = (\<lambda>dp sd. map (\<lambda>m. 100 + m) sd),
      ss_load_parameters = (\<lambda>ss. (True, ss)),
      ss_init = (\<lambda>ss. (True, ss)),
      ss_add_selection_callback = (\<lambda>ss. ss),
      ss_remove_all_surfaces = (\<lambda>ss. []),
      ss_add_surface = (\<lambda>m ss. ss @ [(m, False)]),
      ss_set_selection_flag = (\<lambda>name flag ss. map (\<lambda>(m, f). if m = name then (m, flag) else (m, f)) ss),
      ss_select_all = (\<lambda>flag ss. map (\<lambda>(m, f). (m, flag)) ss),
      ss_show_all = (\<lambda>flag ss. ss),
      ss_get_selected_list = (\<lambda>ss. map fst (filter snd ss)),
      get_bool_param = (\<lambda>key. Some True),
      get_num_param = (\<lambda>ns key. Some 1),
      empty_cloud = []\<rparr>"

definition example_blending_plan :: "nat BlendingPlanParameters" where
  "example_blending_plan =
     \<lparr>tool_radius = 5, margin = 1, overlap = 2, approach_spd = 3, blending_spd = 4,
      retract_spd = 6, traverse_spd = 7, discretization = 8, safe_traverse_height = 9\<rparr>"

definition example_response :: "(nat, nat, nat, nat list) SurfaceDetection_Response" where
  "example_response =
     \<lparr>surfaces_found = False, surfaces = [], robot_scan = 0, surface_detection = 0,
      robot_scan_poses = []\<rparr>"

text \<open>
  A service object after an earlier detection: two clouds are held by the detection, one
  surface is shown by the selection stage, and the cache holds one marker.
\<close>

definition example_service ::
  "(nat, nat, nat, nat, nat list, nat list, nat list, nat list, (nat \<times> bool) list) SurfaceDetectionService" where
  "example_service =
     \<lparr>robot_scan_params = 4,
      robot_scan_impl = [0],
      surface_detection_params = 1,
      surface_detection_impl = [7, 8],
      surface_server = [(7, True)],
      default_robot_scan_params = 3,
      default_surf_detection_params = 2,
      default_blending_plan_params = example_blending_plan,
      blending_plan_params = example_blending_plan\<lparr>margin := 11\<rparr>,
      latest_surface_detection_results =
        \<lparr>surfaces_found = True, surfaces = [17], robot_scan = 0, surface_detection = 1,
         robot_scan_poses = [0]\<rparr>,
      publish_region_point_cloud = True,
      region_cloud_msg = [107],
      calls = []\<rparr>"

definition example_request ::
  "Action \<Rightarrow> bool \<Rightarrow> nat \<Rightarrow> nat \<Rightarrow> (nat, nat) SurfaceDetection_Request" where
  "example_request a d sp dp =
     \<lparr>action = a, use_default_parameters = d, req_robot_scan = sp, req_surface_detection = dp\<rparr>"

text \<open>A sequence of calls of the three services in which no detection succeeds.\<close>

definition example_calls ::
  "(nat, nat, nat, nat, nat list, nat) service_call list" where
  "example_calls =
     [SurfaceDetection (example_request RETURN_LATEST_RESULTS False 0 0) example_response,
      SurfaceDetection (example_request FIND_AND_RETURN False 0 5) example_response,
      SelectSurface \<lparr>select_action = SELECT_ALL, select_surfaces = []\<rparr>,
      SurfaceDetection (example_request SCAN_AND_FIND_ONLY False 0 1) example_response,
      SurfaceBlendingParameters \<lparr>bp_action = BP_GET_CURRENT_PARAMETERS\<rparr>
        \<lparr>bp_surface_detection = 0, bp_robot_scan = 0, bp_blending_plan = example_blending_plan\<rparr>]"

text \<open>A sequence of calls that changes the current scan and detection parameters.\<close>

definition example_calls_changing_parameters ::
  "(nat, nat, nat, nat, nat list, nat) service_call list" where
  "example_calls_changing_parameters =
     [SurfaceDetection (example_request SCAN_FIND_AND_RETURN False 2 1) example_response,
      SelectSurface \<lparr>select_action = SELECT_ALL, select_surfaces = []\<rparr>,
      SurfaceDetection (example_request PUBLISH_SCAN_PATH False 9 0) example_response,
      SurfaceBlendingParameters \<lparr>bp_action = BP_GET_CURRENT_PARAMETERS\<rparr>
        \<lparr>bp_surface_detection = 0, bp_robot_scan = 0, bp_blending_plan = example_blending_plan\<rparr>,
      SurfaceDetection (example_request FIND_ONLY False 0 1) example_response]"

text \<open>
  An instance whose parameter server has no \<open>overlap\<close> entry, so that
  \<^verbatim>\<open>load_blending_parameters\<close> fails, and a service object as the constructor leaves it, with
  every parameter group zero.
\<close>

definition example_stages_missing_overlap ::
  "(nat, nat, nat, nat, nat list, nat list, nat, nat, nat list, nat list, (nat \<times> bool) list) stages" where
  "example_stages_missing_overlap =
     example_stages\<lparr>get_num_param := (\<lambda>ns key. if key = ''overlap'' then None else Some 1)\<rparr>"

definition example_zero_blending_plan :: "nat BlendingPlanParameters" where
  "example_zero_blending_plan =
     \<lparr>tool_radius = 0, margin = 0, overlap = 0, approach_spd = 0, blending_spd = 0,
      retract_spd = 0, traverse_spd = 0, discretization = 0, safe_traverse_height = 0\<rparr>"

definition example_constructed_service ::
  "(nat, nat, nat, nat, nat list, nat list, nat list, nat list, (nat \<times> bool) list) SurfaceDetectionService" where
  "example_constructed_service =
     \<lparr>robot_scan_params = 0,
      robot_scan_impl = [],
      surface_detection_params = 0,
      surface_detection_impl = [],
      surface_server = [],
      default_robot_scan_params = 0,
      default_surf_detection_params = 0,
      default_blending_plan_params = example_zero_blending_plan,
      blending_plan_params = example_zero_blending_plan,
      latest_surface_detection_results = example_response,
      publish_region_point_cloud = False,
      region_cloud_msg = [],
      calls = []\<rparr>"

section \<open>The loops\<close>

lemma add_meshes_eq:
  "add_meshes stg meshes i s =
     s\<lparr>surface_server := foldl (\<lambda>ss m. ss_add_surface stg m ss) (surface_server s) (drop i meshes),
       calls := calls s @ replicate (length meshes - i) AddSurface\<rparr>"
proof (induction stg meshes i s rule: add_meshes.induct)
  case (1 stg meshes i s)
  show ?case
  proof (cases "i < length meshes")
    case True
    then have d: "drop i meshes = meshes ! i # drop (Suc i) meshes"
      by (simp add: Cons_nth_drop_Suc)
    from True have r: "replicate (length meshes - i) AddSurface
        = AddSurface # replicate (length meshes - Suc i) AddSurface"
      by (cases "length meshes - i") auto
    from True have "add_meshes stg meshes i s
        = add_meshes stg meshes (Suc i) (add_surface stg (meshes ! i) s)"
      by (subst add_meshes.simps) simp
    also have "\<dots> = (add_surface stg (meshes ! i) s)
        \<lparr>surface_server := foldl (\<lambda>ss m. ss_add_surface stg m ss)
            (surface_server (add_surface stg (meshes ! i) s)) (drop (Suc i) meshes),
         calls := calls (add_surface stg (meshes ! i) s)
            @ replicate (length meshes - Suc i) AddSurface\<rparr>"
      using 1 [OF True] .
    also have "\<dots> = s\<lparr>surface_server := foldl (\<lambda>ss m. ss_add_surface stg m ss)
            (surface_server s) (drop i meshes),
         calls := calls s @ replicate (length meshes - i) AddSurface\<rparr>"
      by (simp add: d r add_surface_def)
    finally show ?thesis .
  next
    case False
    then show ?thesis by (subst add_meshes.simps) simp
  qed
qed

text \<open>
  With a target list that is not empty, the selection loop cannot leave through its
  condition: from any counter within the list it runs on to the first read past the end.
\<close>

lemma select_loop_fault:
  "select_surfaces_arg \<noteq> [] \<Longrightarrow> i \<le> length select_surfaces_arg \<Longrightarrow>
   select_loop stg select_surfaces_arg flag i s = Inl IndexOutOfRange"
proof (induction stg select_surfaces_arg flag i s rule: select_loop.induct)
  case (1 stg xs flag i s)
  show ?case
  proof (cases "i < length xs")
    case True
    with 1 show ?thesis by (subst select_loop.simps) simp
  next
    case False
    with 1 show ?thesis by (subst select_loop.simps) simp
  qed
qed

lemma select_loop_empty: "select_loop stg [] flag i s = Inr s"
  by (subst select_loop.simps) simp

section \<open>The sub-procedures in closed form\<close>

lemma find_surfaces_eq:
  "find_surfaces stg a s =
    (case sd_find_surfaces stg (surface_detection_params s) (surface_detection_impl s) of
       (found, sd) \<Rightarrow>
         if found then
           (True, sd_get_surface_markers stg (surface_detection_params s) sd @ a,
            s\<lparr>surface_detection_impl := sd,
              surface_server := foldl (\<lambda>ss m. ss_add_surface stg m ss)
                 (ss_remove_all_surfaces stg (surface_server s))
                 (sd_get_meshes stg (surface_detection_params s) sd),
              latest_surface_detection_results :=
                (latest_surface_detection_results s)
                  \<lparr>surfaces_found := True,
                   surfaces := sd_get_surface_markers stg (surface_detection_params s) sd @ a,
                   surface_detection := surface_detection_params s,
                   robot_scan_poses :=
                     rs_get_latest_scan_poses stg (robot_scan_params s) (robot_scan_impl s)\<rparr>,
              region_cloud_msg := sd_get_region_colored_cloud stg (surface_detection_params s) sd,
              calls := calls s @ [FindSurfaces True, RemoveAllSurfaces]
                 @ replicate (length (sd_get_meshes stg (surface_detection_params s) sd)) AddSurface\<rparr>)
         else
           (False, a,
            s\<lparr>surface_detection_impl := sd,
              region_cloud_msg := empty_cloud stg,
              calls := calls s @ [FindSurfaces False]\<rparr>))"
  by (simp add: find_surfaces_def detect_surfaces_def remove_all_surfaces_def add_meshes_eq Let_def
      split: prod.splits)

lemma run_robot_scan_eq:
  "run_robot_scan stg a s =
    (case rs_scan stg False (robot_scan_params s)
            (rs_publish_scan_poses stg ROBOT_SCAN_PATH_PREVIEW_TOPIC (robot_scan_params s) (robot_scan_impl s))
            (surface_detection_params s)
            (sd_clear_results stg (surface_detection_params s) (surface_detection_impl s)) of
       (n, rs, sd) \<Rightarrow>
         if n > 0
         then find_surfaces stg a
                (s\<lparr>robot_scan_impl := rs, surface_detection_impl := sd,
                   calls := calls s @ [PublishScanPoses, ClearResults, Scan n]\<rparr>)
         else (False, a,
               s\<lparr>robot_scan_impl := rs, surface_detection_impl := sd,
                 calls := calls s @ [PublishScanPoses, ClearResults, Scan n]\<rparr>))"
  by (simp add: run_robot_scan_def scan_def clear_results_def publish_scan_poses_def
      split: prod.splits)

lemmas handler_eqs =
  surface_detection_server_callback_def run_robot_scan_eq find_surfaces_eq
  publish_scan_poses_def new_calls_def Let_def

section \<open>What one service call, and a sequence of them, leaves alone\<close>

lemma select_loop_Inr:
  assumes "select_loop stg xs flag 0 s = Inr s1"
  shows "xs = [] \<and> s1 = s"
proof (cases xs)
  case Nil
  with assms show ?thesis by (simp add: select_loop_empty)
next
  case (Cons x ys)
  then have "select_loop stg xs flag 0 s = Inl IndexOutOfRange"
    by (intro select_loop_fault) simp_all
  with assms show ?thesis by simp
qed

lemma detection_callback_step:
  assumes "surface_detection_server_callback stg req res s = (ok, res', s')"
  shows "default_robot_scan_params s' = default_robot_scan_params s"
    and "default_surf_detection_params s' = default_surf_detection_params s"
    and "default_blending_plan_params s' = default_blending_plan_params s"
    and "calls s' = calls s @ new_calls s s'"
    and "FindSurfaces True \<notin> set (new_calls s s') \<Longrightarrow>
           latest_surface_detection_results s' = latest_surface_detection_results s"
  using assms
  by (cases "action req"; auto simp: handler_eqs split: prod.splits if_splits)+

lemma select_callback_step:
  assumes "select_surface_server_callback stg req s = Inr (ok, s')"
  shows "default_robot_scan_params s' = default_robot_scan_params s"
    and "default_surf_detection_params s' = default_surf_detection_params s"
    and "default_blending_plan_params s' = default_blending_plan_params s"
    and "calls s' = calls s @ new_calls s s'"
    and "latest_surface_detection_results s' = latest_surface_detection_results s"
    and "FindSurfaces True \<notin> set (new_calls s s')"
  using assms
  by (cases "select_action req";
      auto simp: select_surface_server_callback_def select_all_def show_all_def new_calls_def
           split: sum.splits dest: select_loop_Inr)+

lemma blend_callback_step:
  assumes "surface_blend_parameters_server_callback req res s = (ok, res', s')"
  shows "s' = s"
  using assms
  by (cases "bp_action req") (auto simp: surface_blend_parameters_server_callback_def)

lemma serve_call_step:
  assumes "serve_call stg c s = Inr (r, s')"
  shows "default_robot_scan_params s' = default_robot_scan_params s"
    and "default_surf_detection_params s' = default_surf_detection_params s"
    and "default_blending_plan_params s' = default_blending_plan_params s"
    and "calls s' = calls s @ new_calls s s'"
    and "FindSurfaces True \<notin> set (new_calls s s') \<Longrightarrow>
           latest_surface_detection_results s' = latest_surface_detection_results s"
proof -
  show "default_robot_scan_params s' = default_robot_scan_params s"
    using assms
    by (cases c)
       (auto simp: serve_call_def split: prod.splits sum.splits
          dest: detection_callback_step(1) select_callback_step(1) blend_callback_step)
  show "default_surf_detection_params s' = default_surf_detection_params s"
    using assms
    by (cases c)
       (auto simp: serve_call_def split: prod.splits sum.splits
          dest: detection_callback_step(2) select_callback_step(2) blend_callback_step)
  show "default_blending_plan_params s' = default_blending_plan_params s"
    using assms
    by (cases c)
       (auto simp: serve_call_def split: prod.splits sum.splits
          dest: detection_callback_step(3) select_callback_step(3) blend_callback_step)
  show "calls s' = calls s @ new_calls s s'"
    using assms
    by (cases c)
       (auto simp: serve_call_def new_calls_def split: prod.splits sum.splits
          dest: detection_callback_step(4) select_callback_step(4) blend_callback_step)
  show "latest_surface_detection_results s' = latest_surface_detection_results s"
    if "FindSurfaces True \<notin> set (new_calls s s')"
    using assms that
    by (cases c)
       (auto simp: serve_call_def split: prod.splits sum.splits
          dest: detection_callback_step(5) select_callback_step(5) blend_callback_step)
qed

lemma new_calls_trans:
  assumes "calls s1 = calls s @ new_calls s s1" and "calls s2 = calls s1 @ new_calls s1 s2"
  shows "new_calls s s2 = new_calls s s1 @ new_calls s1 s2"
proof -
  have "calls s2 = calls s @ (new_calls s s1 @ new_calls s1 s2)"
    using assms by simp
  then show ?thesis
    by (simp add: new_calls_def [of s s2])
qed

lemma serve_steps:
  assumes "serve stg cs s = Inr (rs, s')"
  shows "default_robot_scan_params s' = default_robot_scan_params s
       \<and> default_surf_detection_params s' = default_surf_detection_params s
       \<and> default_blending_plan_params s' = default_blending_plan_params s
       \<and> calls s' = calls s @ new_calls s s'
       \<and> (FindSurfaces True \<notin> set (new_calls s s') \<longrightarrow>
           latest_surface_detection_results s' = latest_surface_detection_results s)"
  using assms
proof (induction cs arbitrary: s rs)
  case Nil
  then show ?case by (simp add: new_calls_def)
next
  case (Cons c cs)
  from Cons.prems obtain r s1 rs1 where
    c: "serve_call stg c s = Inr (r, s1)" and cs: "serve stg cs s1 = Inr (rs1, s')"
    by (auto split: sum.splits prod.splits)
  note step = serve_call_step [OF c]
  note rest = Cons.IH [OF cs]
  have nc: "new_calls s s' = new_calls s s1 @ new_calls s1 s'"
    using step(4) rest by (intro new_calls_trans) simp_all
  show ?case
    using step rest nc by simp
qed

section \<open>Initialisation\<close>

lemma load_all_parameters_frame:
  assumes "load_all_parameters stg s = (ok, s')"
  shows "default_robot_scan_params s' = default_robot_scan_params s"
    and "default_surf_detection_params s' = default_surf_detection_params s"
    and "default_blending_plan_params s' = default_blending_plan_params s"
    and "latest_surface_detection_results s' = latest_surface_detection_results s"
  using assms
  by (auto simp: load_all_parameters_def and_also_def split: prod.splits if_splits)

lemma init_stages_frame:
  assumes "init_stages stg s = (ok, s')"
  shows "default_robot_scan_params s' = default_robot_scan_params s"
    and "default_surf_detection_params s' = default_surf_detection_params s"
    and "default_blending_plan_params s' = default_blending_plan_params s"
    and "robot_scan_params s' = robot_scan_params s"
    and "surface_detection_params s' = surface_detection_params s"
    and "blending_plan_params s' = blending_plan_params s"
    and "latest_surface_detection_results s' = latest_surface_detection_results s"
  using assms
  by (auto simp: init_stages_def and_also_def split: prod.splits if_splits)

lemma load_publish_frame:
  "default_robot_scan_params (load_publish_region_point_cloud stg s) = default_robot_scan_params s"
  "default_surf_detection_params (load_publish_region_point_cloud stg s) = default_surf_detection_params s"
  "default_blending_plan_params (load_publish_region_point_cloud stg s) = default_blending_plan_params s"
  "latest_surface_detection_results (load_publish_region_point_cloud stg s) = latest_surface_detection_results s"
  by (simp_all add: load_publish_region_point_cloud_def split: option.splits)

lemma init_snapshot:
  assumes "init stg s0 = (ok, s1)"
  shows "ok"
    and "fst (load_all_parameters stg (load_publish_region_point_cloud stg s0)) \<Longrightarrow>
           default_robot_scan_params s1 = robot_scan_params s1
         \<and> default_surf_detection_params s1 = surface_detection_params s1
         \<and> default_blending_plan_params s1 = blending_plan_params s1"
    and "\<not> fst (load_all_parameters stg (load_publish_region_point_cloud stg s0)) \<Longrightarrow>
           default_robot_scan_params s1 = default_robot_scan_params s0
         \<and> default_surf_detection_params s1 = default_surf_detection_params s0
         \<and> default_blending_plan_params s1 = default_blending_plan_params s0"
    and "latest_surface_detection_results s1 = latest_surface_detection_results s0"
proof -
  obtain loaded sa where
    la: "load_all_parameters stg (load_publish_region_point_cloud stg s0) = (loaded, sa)"
    by (cases "load_all_parameters stg (load_publish_region_point_cloud stg s0)")
  note fa = load_all_parameters_frame [OF la, unfolded load_publish_frame]
  define s2 where "s2 = sa\<lparr>default_robot_scan_params := robot_scan_params sa,
                            default_surf_detection_params := surface_detection_params sa,
                            default_blending_plan_params := blending_plan_params sa\<rparr>"
  obtain initialized sb where ib: "init_stages stg s2 = (initialized, sb)"
    by (cases "init_stages stg s2")
  note fb = init_stages_frame [OF ib]
  define s3 where "s3 = (if loaded
      then (if initialized
            then sb\<lparr>robot_scan_impl := rs_add_scan_callback stg (robot_scan_impl sb)\<rparr>
            else sb)
      else sa)"
  have res: "ok" "s1 = s3\<lparr>surface_server := ss_add_selection_callback stg (surface_server s3)\<rparr>"
    using assms la ib by (auto simp: init_def Let_def s2_def s3_def)
  show "ok" by (rule res(1))
  show "default_robot_scan_params s1 = robot_scan_params s1
         \<and> default_surf_detection_params s1 = surface_detection_params s1
         \<and> default_blending_plan_params s1 = blending_plan_params s1"
    if "fst (load_all_parameters stg (load_publish_region_point_cloud stg s0))"
    using that la fb by (simp add: res(2) s3_def s2_def)
  show "default_robot_scan_params s1 = default_robot_scan_params s0
         \<and> default_surf_detection_params s1 = default_surf_detection_params s0
         \<and> default_blending_plan_params s1 = default_blending_plan_params s0"
    if "\<not> fst (load_all_parameters stg (load_publish_region_point_cloud stg s0))"
    using that la fa by (simp add: res(2) s3_def)
  show "latest_surface_detection_results s1 = latest_surface_detection_results s0"
    using fa fb by (simp add: res(2) s3_def s2_def)
qed

section \<open>Evaluating the concrete instance\<close>

lemma example_stages_simps:
  "rs_load_parameters example_stages = (\<lambda>ns sp rs. (True, 3, rs))"
  "rs_init example_stages = (\<lambda>sp rs. (True, rs))"
  "rs_add_scan_callback example_stages = (\<lambda>rs. rs)"
  "rs_publish_scan_poses example_stages = (\<lambda>topic sp rs. rs)"
  "rs_scan example_stages = (\<lambda>move_only sp rs dp sd. (int sp, [0..<sp], sd @ [0..<sp]))"
  "rs_get_latest_scan_poses example_stages = (\<lambda>sp rs. rs)"
  "sd_load_parameters example_stages = (\<lambda>ns dp sd. (True, 2, sd))"
  "sd_init example_stages = (\<lambda>dp sd. (True, sd))"
  "sd_clear_results example_stages = (\<lambda>dp sd. [])"
  "sd_find_surfaces example_stages = (\<lambda>dp sd. (0 < length sd \<and> dp \<le> length sd, sd))"
  "sd_get_meshes example_stages = (\<lambda>dp sd. sd)"
  "sd_get_surface_markers example_stages = (\<lambda>dp sd. map (\<lambda>m. 10 + m) sd)"
  "sd_get_region_colored_cloud example_stages = (\<lambda>dp sd. map (\<lambda>m. 100 + m) sd)"
  "ss_load_parameters example_stages = (\<lambda>ss. (True, ss))"
  "ss_init example_stages = (\<lambda>ss. (True, ss))"
  "ss_add_selection_callback example_stages = (\<lambda>ss. ss)"
  "ss_remove_all_surfaces example_stages = (\<lambda>ss. [])"
  "ss_add_surface example_stages = (\<lambda>m ss. ss @ [(m, False)])"
  "ss_set_selection_flag example_stages = (\<lambda>name flag ss. map (\<lambda>(m, f). if m = name then (m, flag) else (m, f)) ss)"
  "ss_select_all example_stages = (\<lambda>flag ss. map (\<lambda>(m, f). (m, flag)) ss)"
  "ss_show_all example_stages = (\<lambda>flag ss. ss)"
  "ss_get_selected_list example_stages = (\<lambda>ss. map fst (filter snd ss))"
  "get_bool_param example_stages = (\<lambda>key. Some True)"
  "get_num_param example_stages = (\<lambda>ns key. Some 1)"
  "empty_cloud example_stages = []"
  by (simp_all add: example_stages_def)

lemma example_service_simps:
  "robot_scan_params example_service = 4"
  "robot_scan_impl example_service = [0]"
  "surface_detection_params example_service = 1"
  "surface_detection_impl example_service = [7, 8]"
  "surface_server example_service = [(7, True)]"
  "default_robot_scan_params example_service = 3"
  "default_surf_detection_params example_service = 2"
  "default_blending_plan_params example_service = example_blending_plan"
  "blending_plan_params example_service = example_blending_plan\<lparr>margin := 11\<rparr>"
  "latest_surface_detection_results example_service =
     \<lparr>surfaces_found = True, surfaces = [17], robot_scan = 0, surface_detection = 1,
      robot_scan_poses = [0]\<rparr>"
  "publish_region_point_cloud example_service = True"
  "region_cloud_msg example_service = [107]"
  "calls example_service = []"
  by (simp_all add: example_service_def)

lemma example_request_simps:
  "action (example_request a d sp dp) = a"
  "use_default_parameters (example_request a d sp dp) = d"
  "req_robot_scan (example_request a d sp dp) = sp"
  "req_surface_detection (example_request a d sp dp) = dp"
  by (simp_all add: example_request_def)

lemmas example_simps =
  example_stages_simps example_service_simps example_request_simps

lemma upt_0_3: "[0..<3] = [0, 1, 2]"
  by (simp add: upt_rec)

lemma upt_0_2: "[0..<2] = [0, 1]"
  by (simp add: upt_rec)

lemma example_calls_served:
  "serve example_stages example_calls example_service =
    Inr ([SurfaceDetectionReply True
            \<lparr>surfaces_found = True, surfaces = [17], robot_scan = 0, surface_detection = 1,
             robot_scan_poses = [0]\<rparr>,
          SurfaceDetectionReply True example_response,
          SelectSurfaceReply True,
          SurfaceDetectionReply True example_response,
          SurfaceBlendingParametersReply True
            \<lparr>bp_surface_detection = 1, bp_robot_scan = 0,
             bp_blending_plan = example_blending_plan\<lparr>margin := 11\<rparr>\<rparr>],
         example_service
           \<lparr>robot_scan_params := 0, robot_scan_impl := [],
            surface_detection_params := 1, surface_detection_impl := [],
            region_cloud_msg := [],
            calls := [FindSurfaces False, SelectAll True, PublishScanPoses, ClearResults, Scan 0]\<rparr>)"
  by (simp add: example_calls_def serve_call_def handler_eqs select_surface_server_callback_def
      select_all_def surface_blend_parameters_server_callback_def example_simps
      example_service_def example_response_def)

lemma example_init:
  "init example_stages example_service =
     (True,
      example_service
        \<lparr>robot_scan_params := 3, surface_detection_params := 2,
         default_blending_plan_params :=
           \<lparr>tool_radius = 1, margin = 1, overlap = 1, approach_spd = 1, blending_spd = 1,
            retract_spd = 1, traverse_spd = 1, discretization = 1, safe_traverse_height = 1\<rparr>,
         blending_plan_params :=
           \<lparr>tool_radius = 1, margin = 1, overlap = 1, approach_spd = 1, blending_spd = 1,
            retract_spd = 1, traverse_spd = 1, discretization = 1, safe_traverse_height = 1\<rparr>\<rparr>)"
  by (simp add: init_def load_publish_region_point_cloud_def load_all_parameters_def
      init_stages_def load_blending_parameters_def getParam_def and_also_def Let_def
      example_simps example_service_def example_blending_plan_def)

lemma example_calls_changing_parameters_served:
  "\<not> isl (serve example_stages example_calls_changing_parameters
            (snd (init example_stages example_service)))"
  "robot_scan_params (snd (projr (serve example_stages example_calls_changing_parameters
            (snd (init example_stages example_service))))) = 9"
  "surface_detection_params (snd (projr (serve example_stages example_calls_changing_parameters
            (snd (init example_stages example_service))))) = 1"
  by (simp_all add: example_init example_calls_changing_parameters_def serve_call_def handler_eqs
      select_surface_server_callback_def select_all_def
      surface_blend_parameters_server_callback_def example_simps
      example_service_def example_response_def upt_0_2)

lemma example_init_missing_overlap:
  "init example_stages_missing_overlap example_constructed_service =
     (True,
      example_constructed_service
        \<lparr>robot_scan_params := 3, surface_detection_params := 2,
         blending_plan_params := example_zero_blending_plan\<lparr>tool_radius := 1, margin := 1\<rparr>,
         publish_region_point_cloud := True\<rparr>)"
  by (simp add: init_def load_publish_region_point_cloud_def load_all_parameters_def
      load_blending_parameters_def getParam_def and_also_def Let_def
      example_stages_missing_overlap_def example_stages_simps
      example_constructed_service_def example_zero_blending_plan_def)

lemma example_constructed_service_simps:
  "robot_scan_params example_constructed_service = 0"
  "surface_detection_params example_constructed_service = 0"
  "default_robot_scan_params example_constructed_service = 0"
  "default_surf_detection_params example_constructed_service = 0"
  "default_blending_plan_params example_constructed_service = example_zero_blending_plan"
  "blending_plan_params example_constructed_service = example_zero_blending_plan"
  by (simp_all add: example_constructed_service_def)

section \<open>Properties of the action dispatch\<close>

text \<open>
  In every theorem below \<open>stg\<close> is an arbitrary instance of the stages, \<open>s\<close> the service
  object before the call and \<open>s'\<close> the service object after it. The examples run the
  handlers on \<open>example_stages\<close> and \<open>example_service\<close>.
\<close>

text \<open>
  Claim C1. Parameter resolution of \<^verbatim>\<open>surface_detection_server_callback\<close>, for every action
  and every request: a parameter group the action touches (scan for \<^verbatim>\<open>PUBLISH_SCAN_PATH\<close> and
  the two scan actions, detection for the four actions that run the detection) equals the
  default value after the call when \<^verbatim>\<open>use_default_parameters\<close> is set, and equals the value
  carried by the request when it is not; a group the action does not touch keeps its
  current value, and the blending-plan group is kept by every action.
\<close>

theorem parameter_resolution:
  assumes "surface_detection_server_callback stg req res s = (ok, res', s')"
  shows "(touches_scan (action req) \<and> use_default_parameters req
            \<longrightarrow> robot_scan_params s' = default_robot_scan_params s')
       \<and> (touches_scan (action req) \<and> \<not> use_default_parameters req
            \<longrightarrow> robot_scan_params s' = req_robot_scan req)
       \<and> (\<not> touches_scan (action req) \<longrightarrow> robot_scan_params s' = robot_scan_params s)
       \<and> (touches_detection (action req) \<and> use_default_parameters req
            \<longrightarrow> surface_detection_params s' = default_surf_detection_params s')
       \<and> (touches_detection (action req) \<and> \<not> use_default_parameters req
            \<longrightarrow> surface_detection_params s' = req_surface_detection req)
       \<and> (\<not> touches_detection (action req)
            \<longrightarrow> surface_detection_params s' = surface_detection_params s)
       \<and> blending_plan_params s' = blending_plan_params s"
  using assms
  by (cases "action req") (auto simp: handler_eqs split: prod.splits if_splits)

theorem parameter_resolution_witness:
  "(case surface_detection_server_callback example_stages
           (example_request FIND_ONLY True 9 5) example_response example_service of
      (ok, res', s') \<Rightarrow>
        robot_scan_params s' = 4 \<and> surface_detection_params s' = 2
        \<and> blending_plan_params s' = blending_plan_params example_service)
 \<and> (case surface_detection_server_callback example_stages
           (example_request SCAN_FIND_AND_RETURN False 9 5) example_response example_service of
      (ok, res', s') \<Rightarrow>
        robot_scan_params s' = 9 \<and> surface_detection_params s' = 5
        \<and> blending_plan_params s' = blending_plan_params example_service)
 \<and> (case surface_detection_server_callback example_stages
           (example_request PUBLISH_SCAN_PATH True 9 5) example_response example_service of
      (ok, res', s') \<Rightarrow>
        robot_scan_params s' = 3 \<and> surface_detection_params s' = 1
        \<and> blending_plan_params s' = blending_plan_params example_service)"
proof -
  let ?A = "surface_detection_server_callback example_stages
              (example_request FIND_ONLY True 9 5) example_response example_service"
  let ?B = "surface_detection_server_callback example_stages
              (example_request SCAN_FIND_AND_RETURN False 9 5) example_response example_service"
  let ?C = "surface_detection_server_callback example_stages
              (example_request PUBLISH_SCAN_PATH True 9 5) example_response example_service"
  have a: "?A = (fst ?A, fst (snd ?A), snd (snd ?A))"
    and b: "?B = (fst ?B, fst (snd ?B), snd (snd ?B))"
    and c: "?C = (fst ?C, fst (snd ?C), snd (snd ?C))"
    by simp_all
  have d: "default_robot_scan_params (snd (snd ?C)) = 3"
    "default_surf_detection_params (snd (snd ?A)) = 2"
    using detection_callback_step(1) [OF c] detection_callback_step(2) [OF a]
    by (simp_all add: example_service_def)
  from parameter_resolution [OF a] parameter_resolution [OF b] parameter_resolution [OF c] d
  show ?thesis
    by (simp add: case_prod_beta example_request_def example_service_def)
qed

text \<open>
  Claim C2. A scan is run only by \<^verbatim>\<open>SCAN_AND_FIND_ONLY\<close> and \<^verbatim>\<open>SCAN_FIND_AND_RETURN\<close>. When
  the scan of a call reaches no pose (\<^verbatim>\<open>scans_completed\<close> is not positive), the stage calls
  of the whole action are the preview, the clearing of the detection and the scan: the
  detection is not run. The cached result is the one from before the call and the response
  carries \<^verbatim>\<open>surfaces_found = false\<close>.
\<close>

theorem failed_scan_skips_find:
  assumes "surface_detection_server_callback stg req res s = (ok, res', s')"
    and "Scan n \<in> set (new_calls s s')" and "n \<le> 0"
  shows "(action req = SCAN_AND_FIND_ONLY \<or> action req = SCAN_FIND_AND_RETURN)
       \<and> new_calls s s' = [PublishScanPoses, ClearResults, Scan n]
       \<and> (\<forall>b. FindSurfaces b \<notin> set (new_calls s s'))
       \<and> latest_surface_detection_results s' = latest_surface_detection_results s
       \<and> \<not> surfaces_found res'"
  using assms
  by (cases "action req") (auto simp: handler_eqs split: prod.splits if_splits)

theorem failed_scan_skips_find_witness:
  "(case surface_detection_server_callback example_stages
           (example_request SCAN_FIND_AND_RETURN False 0 1) example_response example_service of
      (ok, res', s') \<Rightarrow>
        Scan 0 \<in> set (new_calls example_service s')
        \<and> new_calls example_service s' = [PublishScanPoses, ClearResults, Scan 0]
        \<and> FindSurfaces True \<notin> set (new_calls example_service s')
        \<and> FindSurfaces False \<notin> set (new_calls example_service s')
        \<and> surfaces (latest_surface_detection_results s') = [17]
        \<and> \<not> surfaces_found res')"
proof -
  let ?X = "surface_detection_server_callback example_stages
              (example_request SCAN_FIND_AND_RETURN False 0 1) example_response example_service"
  have x: "?X = (fst ?X, fst (snd ?X), snd (snd ?X))"
    by simp
  have h: "Scan 0 \<in> set (new_calls example_service (snd (snd ?X)))"
    by (simp add: handler_eqs example_simps)
  from failed_scan_skips_find [OF x h] h show ?thesis
    by (simp add: case_prod_beta example_simps)
qed

text \<open>
  Claim C3. Whenever the detection is run by a call and fails, the region cloud of the
  service is the empty cloud after the call, the cached result is the one from before the
  call, and the response carries \<^verbatim>\<open>surfaces_found = false\<close>.
\<close>

theorem failed_find_keeps_cache:
  assumes "surface_detection_server_callback stg req res s = (ok, res', s')"
    and "FindSurfaces False \<in> set (new_calls s s')"
  shows "region_cloud_msg s' = empty_cloud stg
       \<and> latest_surface_detection_results s' = latest_surface_detection_results s
       \<and> \<not> surfaces_found res'"
  using assms
  by (cases "action req") (auto simp: handler_eqs split: prod.splits if_splits)

theorem failed_find_keeps_cache_witness:
  "(case surface_detection_server_callback example_stages
           (example_request FIND_AND_RETURN False 0 5) example_response example_service of
      (ok, res', s') \<Rightarrow>
        FindSurfaces False \<in> set (new_calls example_service s')
        \<and> region_cloud_msg example_service = [107] \<and> region_cloud_msg s' = []
        \<and> surfaces (latest_surface_detection_results s') = [17]
        \<and> surfaces_found (latest_surface_detection_results s')
        \<and> \<not> surfaces_found res')
 \<and> (case surface_detection_server_callback example_stages
           (example_request SCAN_AND_FIND_ONLY False 2 5) example_response example_service of
      (ok, res', s') \<Rightarrow>
        FindSurfaces False \<in> set (new_calls example_service s')
        \<and> region_cloud_msg s' = []
        \<and> surfaces (latest_surface_detection_results s') = [17]
        \<and> \<not> surfaces_found res')"
proof -
  let ?X = "surface_detection_server_callback example_stages
              (example_request FIND_AND_RETURN False 0 5) example_response example_service"
  let ?Y = "surface_detection_server_callback example_stages
              (example_request SCAN_AND_FIND_ONLY False 2 5) example_response example_service"
  have x: "?X = (fst ?X, fst (snd ?X), snd (snd ?X))"
    and y: "?Y = (fst ?Y, fst (snd ?Y), snd (snd ?Y))"
    by simp_all
  have hx: "FindSurfaces False \<in> set (new_calls example_service (snd (snd ?X)))"
    by (simp add: handler_eqs example_simps)
  have hy: "FindSurfaces False \<in> set (new_calls example_service (snd (snd ?Y)))"
    by (simp add: handler_eqs example_simps)
  from failed_find_keeps_cache [OF x hx] failed_find_keeps_cache [OF y hy] hx hy show ?thesis
    by (simp add: case_prod_beta example_simps)
qed

text \<open>
  Claim C4. Whenever the detection is run by a call and succeeds: the selection stage has
  had all its surfaces removed and then every mesh of the detection added, in order; the
  cached result has been given the detection parameters in use, \<^verbatim>\<open>surfaces_found = true\<close>,
  the surface markers of the detection and the latest scan poses; the region cloud of the
  service is the region-coloured cloud of the detection; and the response carries
  \<^verbatim>\<open>surfaces_found = true\<close>. The stage calls of the action end with the detection, the
  removal and one addition for each mesh.
\<close>

theorem successful_find_replaces_cache:
  assumes "surface_detection_server_callback stg req res s = (ok, res', s')"
    and "FindSurfaces True \<in> set (new_calls s s')"
  shows "surface_server s' =
           foldl (\<lambda>ss m. ss_add_surface stg m ss) (ss_remove_all_surfaces stg (surface_server s))
             (sd_get_meshes stg (surface_detection_params s') (surface_detection_impl s'))
       \<and> latest_surface_detection_results s' =
           (latest_surface_detection_results s)
             \<lparr>surfaces_found := True,
              surfaces := sd_get_surface_markers stg (surface_detection_params s') (surface_detection_impl s'),
              surface_detection := surface_detection_params s',
              robot_scan_poses := rs_get_latest_scan_poses stg (robot_scan_params s') (robot_scan_impl s')\<rparr>
       \<and> region_cloud_msg s' =
           sd_get_region_colored_cloud stg (surface_detection_params s') (surface_detection_impl s')
       \<and> surfaces_found res'
       \<and> (\<exists>before. new_calls s s' =
             before @ [FindSurfaces True, RemoveAllSurfaces]
               @ replicate (length (sd_get_meshes stg (surface_detection_params s')
                                      (surface_detection_impl s'))) AddSurface)"
  using assms
  by (cases "action req") (auto simp: handler_eqs split: prod.splits if_splits)

theorem successful_find_replaces_cache_witness:
  "(case surface_detection_server_callback example_stages
           (example_request SCAN_FIND_AND_RETURN False 3 2) example_response example_service of
      (ok, res', s') \<Rightarrow>
        FindSurfaces True \<in> set (new_calls example_service s')
        \<and> surface_server example_service = [(7, True)]
        \<and> surface_server s' = [(0, False), (1, False), (2, False)]
        \<and> latest_surface_detection_results s' =
            \<lparr>surfaces_found = True, surfaces = [10, 11, 12], robot_scan = 0,
             surface_detection = 2, robot_scan_poses = [0, 1, 2]\<rparr>
        \<and> region_cloud_msg s' = [100, 101, 102]
        \<and> surfaces_found res')"
proof -
  let ?X = "surface_detection_server_callback example_stages
              (example_request SCAN_FIND_AND_RETURN False 3 2) example_response example_service"
  have x: "?X = (fst ?X, fst (snd ?X), snd (snd ?X))"
    by simp
  have h: "FindSurfaces True \<in> set (new_calls example_service (snd (snd ?X)))"
    by (simp add: handler_eqs example_simps)
  have v: "surface_detection_params (snd (snd ?X)) = 2"
    "surface_detection_impl (snd (snd ?X)) = [0, 1, 2]"
    "robot_scan_impl (snd (snd ?X)) = [0, 1, 2]"
    by (simp_all add: handler_eqs example_simps upt_0_3)
  from successful_find_replaces_cache [OF x h] h show ?thesis
    by (simp add: case_prod_beta v example_simps)
qed

text \<open>
  Claim C5. \<^verbatim>\<open>RETURN_LATEST_RESULTS\<close> answers with the cached result as it is, whatever the
  response object held, and leaves the service object as it was. Repeating it gives the
  same response, also after any sequence of served calls in which no detection succeeded.
  Initialisation does not write the cache, so until a detection succeeds the response is
  the value the cache was constructed with.
\<close>

theorem return_latest_results_idempotent:
  assumes "action req = RETURN_LATEST_RESULTS" and "action req' = RETURN_LATEST_RESULTS"
    and "serve stg cs s = Inr (replies, s')"
    and "FindSurfaces True \<notin> set (new_calls s s')"
  shows "surface_detection_server_callback stg req res s =
           (True, latest_surface_detection_results s, s)
       \<and> surface_detection_server_callback stg req' res' s' =
           (True, latest_surface_detection_results s, s')
       \<and> latest_surface_detection_results (snd (init stg s0)) = latest_surface_detection_results s0"
proof -
  have "latest_surface_detection_results s' = latest_surface_detection_results s"
    using serve_steps [OF assms(3)] assms(4) by simp
  moreover have "latest_surface_detection_results (snd (init stg s0)) = latest_surface_detection_results s0"
    by (rule init_snapshot(4) [of stg s0 "fst (init stg s0)"]) simp
  ultimately show ?thesis
    using assms(1,2) by (simp add: surface_detection_server_callback_def)
qed

theorem return_latest_results_idempotent_witness:
  "surface_detection_server_callback example_stages
      (example_request RETURN_LATEST_RESULTS True 0 0) example_response example_service
    = (True,
       \<lparr>surfaces_found = True, surfaces = [17], robot_scan = 0, surface_detection = 1,
        robot_scan_poses = [0]\<rparr>,
       example_service)
 \<and> fst (snd (surface_detection_server_callback example_stages
      (example_request RETURN_LATEST_RESULTS False 3 3) example_response
      (snd (projr (serve example_stages example_calls example_service)))))
    = \<lparr>surfaces_found = True, surfaces = [17], robot_scan = 0, surface_detection = 1,
       robot_scan_poses = [0]\<rparr>
 \<and> FindSurfaces True \<notin> set (new_calls example_service
       (snd (projr (serve example_stages example_calls example_service))))"
proof -
  let ?R = "projr (serve example_stages example_calls example_service)"
  have e: "serve example_stages example_calls example_service = Inr (fst ?R, snd ?R)"
    by (simp add: example_calls_served)
  have h: "FindSurfaces True \<notin> set (new_calls example_service (snd ?R))"
    by (simp add: example_calls_served new_calls_def example_simps)
  from return_latest_results_idempotent
         [OF example_request_simps(1) example_request_simps(1) e h,
          of True 0 0 example_response False 3 3 example_response]
       h
  show ?thesis
    by (simp add: example_simps)
qed



text \<open>
  Claim C10. When \<^verbatim>\<open>SCAN_AND_FIND_ONLY\<close> or \<^verbatim>\<open>FIND_ONLY\<close> runs a detection that succeeds, the
  response has an empty marker list, while the cache holds all the surface markers of the
  detection: the cache is written inside \<^verbatim>\<open>find_surfaces\<close>, before the handler clears the
  markers of the response. A following \<^verbatim>\<open>RETURN_LATEST_RESULTS\<close> answers with the cache, so
  with all the markers.
\<close>

theorem cache_keeps_markers_after_find_only:
  assumes "surface_detection_server_callback stg req res s = (ok, res1, s1)"
    and "action req = SCAN_AND_FIND_ONLY \<or> action req = FIND_ONLY"
    and "FindSurfaces True \<in> set (new_calls s s1)"
    and "action req2 = RETURN_LATEST_RESULTS"
  shows "surfaces_found res1 \<and> surfaces res1 = []
       \<and> surfaces (latest_surface_detection_results s1) =
           sd_get_surface_markers stg (surface_detection_params s1) (surface_detection_impl s1)
       \<and> surface_detection_server_callback stg req2 res2 s1 =
           (True, latest_surface_detection_results s1, s1)"
  using assms
  by (cases "action req") (auto simp: handler_eqs split: prod.splits if_splits)

theorem cache_keeps_markers_after_find_only_witness:
  "(case surface_detection_server_callback example_stages
           (example_request FIND_ONLY False 0 2) example_response example_service of
      (ok, res1, s1) \<Rightarrow>
        FindSurfaces True \<in> set (new_calls example_service s1)
        \<and> surfaces_found res1 \<and> surfaces res1 = []
        \<and> surfaces (latest_surface_detection_results s1) = [17, 18]
        \<and> surfaces (fst (snd (surface_detection_server_callback example_stages
             (example_request RETURN_LATEST_RESULTS False 0 0) example_response s1))) = [17, 18])"
proof -
  let ?A = "surface_detection_server_callback example_stages
              (example_request FIND_ONLY False 0 2) example_response example_service"
  have a: "?A = (fst ?A, fst (snd ?A), snd (snd ?A))"
    by simp
  have va: "FindSurfaces True \<in> set (new_calls example_service (snd (snd ?A)))"
    "surface_detection_params (snd (snd ?A)) = 2"
    "surface_detection_impl (snd (snd ?A)) = [7, 8]"
    by (simp_all add: handler_eqs example_simps)
  from cache_keeps_markers_after_find_only
         [OF a _ va(1) example_request_simps(1), of False 0 0 example_response]
       va(1)
  show ?thesis
    by (simp add: case_prod_beta va(2,3) example_simps)
qed

text \<open>
  Claim C7, amended. The three default groups are written by one statement sequence, in
  \<^verbatim>\<open>init\<close>, guarded by the four parameter loads: when all of them succeed the defaults are
  assigned once, with the current groups as loaded; when one fails they are not assigned
  and stay as constructed. In both cases no served call writes them: after any sequence of
  calls of the three services that have returned, the defaults are those \<^verbatim>\<open>init\<close> left,
  and \<^verbatim>\<open>GET_DEFAULT_PARAMETERS\<close> of both services answers with them.
\<close>

theorem defaults_never_mutated:
  assumes "init stg s0 = (ok0, s1)" and "serve stg cs s1 = Inr (replies, s')"
    and "action req = GET_DEFAULT_PARAMETERS" and "bp_action breq = BP_GET_DEFAULT_PARAMETERS"
  shows "(if fst (load_all_parameters stg (load_publish_region_point_cloud stg s0))
          then default_robot_scan_params s1 = robot_scan_params s1
             \<and> default_surf_detection_params s1 = surface_detection_params s1
             \<and> default_blending_plan_params s1 = blending_plan_params s1
          else default_robot_scan_params s1 = default_robot_scan_params s0
             \<and> default_surf_detection_params s1 = default_surf_detection_params s0
             \<and> default_blending_plan_params s1 = default_blending_plan_params s0)
       \<and> default_robot_scan_params s' = default_robot_scan_params s1
       \<and> default_surf_detection_params s' = default_surf_detection_params s1
       \<and> default_blending_plan_params s' = default_blending_plan_params s1
       \<and> surface_detection_server_callback stg req res s' =
           (True,
            res\<lparr>surfaces_found := False, surfaces := [],
                robot_scan := default_robot_scan_params s1,
                surface_detection := default_surf_detection_params s1\<rparr>,
            s')
       \<and> surface_blend_parameters_server_callback breq bres s' =
           (True,
            bres\<lparr>bp_surface_detection := default_surf_detection_params s1,
                 bp_robot_scan := default_robot_scan_params s1,
                 bp_blending_plan := default_blending_plan_params s1\<rparr>,
            s')"
proof -
  note kept = serve_steps [OF assms(2)]
  have snap: "if fst (load_all_parameters stg (load_publish_region_point_cloud stg s0))
          then default_robot_scan_params s1 = robot_scan_params s1
             \<and> default_surf_detection_params s1 = surface_detection_params s1
             \<and> default_blending_plan_params s1 = blending_plan_params s1
          else default_robot_scan_params s1 = default_robot_scan_params s0
             \<and> default_surf_detection_params s1 = default_surf_detection_params s0
             \<and> default_blending_plan_params s1 = default_blending_plan_params s0"
    using init_snapshot(2,3) [OF assms(1)] by simp
  have det: "surface_detection_server_callback stg req res s' =
           (True,
            res\<lparr>surfaces_found := False, surfaces := [],
                robot_scan := default_robot_scan_params s1,
                surface_detection := default_surf_detection_params s1\<rparr>,
            s')"
    using assms(3) kept by (simp add: surface_detection_server_callback_def)
  have bl: "surface_blend_parameters_server_callback breq bres s' =
           (True,
            bres\<lparr>bp_surface_detection := default_surf_detection_params s1,
                 bp_robot_scan := default_robot_scan_params s1,
                 bp_blending_plan := default_blending_plan_params s1\<rparr>,
            s')"
    using assms(4) kept by (simp add: surface_blend_parameters_server_callback_def)
  from snap det bl kept show ?thesis by simp
qed

theorem defaults_never_mutated_witness:
  "robot_scan_params (snd (projr (serve example_stages example_calls_changing_parameters
      (snd (init example_stages example_service))))) = 9
 \<and> surface_detection_params (snd (projr (serve example_stages example_calls_changing_parameters
      (snd (init example_stages example_service))))) = 1
 \<and> fst (snd (surface_detection_server_callback example_stages
      (example_request GET_DEFAULT_PARAMETERS False 0 0) example_response
      (snd (projr (serve example_stages example_calls_changing_parameters
         (snd (init example_stages example_service)))))))
    = \<lparr>surfaces_found = False, surfaces = [], robot_scan = 3, surface_detection = 2,
       robot_scan_poses = []\<rparr>
 \<and> fst (snd (surface_blend_parameters_server_callback
      \<lparr>bp_action = BP_GET_DEFAULT_PARAMETERS\<rparr>
      \<lparr>bp_surface_detection = 0, bp_robot_scan = 0, bp_blending_plan = example_blending_plan\<rparr>
      (snd (projr (serve example_stages example_calls_changing_parameters
         (snd (init example_stages example_service)))))))
    = \<lparr>bp_surface_detection = 2, bp_robot_scan = 3,
       bp_blending_plan =
         \<lparr>tool_radius = 1, margin = 1, overlap = 1, approach_spd = 1, blending_spd = 1,
          retract_spd = 1, traverse_spd = 1, discretization = 1, safe_traverse_height = 1\<rparr>\<rparr>"
proof -
  let ?I = "init example_stages example_service"
  let ?R = "projr (serve example_stages example_calls_changing_parameters (snd ?I))"
  have i: "?I = (fst ?I, snd ?I)"
    by simp
  have e: "serve example_stages example_calls_changing_parameters (snd ?I) = Inr (fst ?R, snd ?R)"
    using example_calls_changing_parameters_served(1) by simp
  have d: "default_robot_scan_params (snd ?I) = 3"
    "default_surf_detection_params (snd ?I) = 2"
    "default_blending_plan_params (snd ?I) =
       \<lparr>tool_radius = 1, margin = 1, overlap = 1, approach_spd = 1, blending_spd = 1,
        retract_spd = 1, traverse_spd = 1, discretization = 1, safe_traverse_height = 1\<rparr>"
    by (simp_all add: example_init example_simps)
  have b: "bp_action \<lparr>bp_action = BP_GET_DEFAULT_PARAMETERS\<rparr> = BP_GET_DEFAULT_PARAMETERS"
    by simp
  from defaults_never_mutated [OF i e example_request_simps(1) b,
         of False 0 0 example_response
            "\<lparr>bp_surface_detection = 0, bp_robot_scan = 0, bp_blending_plan = example_blending_plan\<rparr>"]
       example_calls_changing_parameters_served(2,3)
  show ?thesis
    by (simp add: d example_response_def)
qed

text \<open>
  Claim C7 as first stated (the defaults are assigned at initialisation, and
  \<^verbatim>\<open>GET_DEFAULT_PARAMETERS\<close> answers with the values snapshotted at startup) fails when a
  load fails. Without the \<open>overlap\<close> entry \<^verbatim>\<open>init\<close> still returns true and the services
  are served; the scan and detection groups have been loaded (3 and 2) and two blending
  fields have been read, but no default has been assigned: \<^verbatim>\<open>GET_CURRENT_PARAMETERS\<close>
  answers 3 and 2, \<^verbatim>\<open>GET_DEFAULT_PARAMETERS\<close> answers the constructed 0 and 0.
\<close>

theorem defaults_not_assigned_when_load_fails:
  "fst (init example_stages_missing_overlap example_constructed_service)
 \<and> \<not> fst (load_all_parameters example_stages_missing_overlap
            (load_publish_region_point_cloud example_stages_missing_overlap
               example_constructed_service))
 \<and> robot_scan_params (snd (init example_stages_missing_overlap example_constructed_service)) = 3
 \<and> surface_detection_params (snd (init example_stages_missing_overlap example_constructed_service)) = 2
 \<and> default_robot_scan_params (snd (init example_stages_missing_overlap example_constructed_service)) = 0
 \<and> default_surf_detection_params (snd (init example_stages_missing_overlap example_constructed_service)) = 0
 \<and> default_blending_plan_params (snd (init example_stages_missing_overlap example_constructed_service))
      = example_zero_blending_plan
 \<and> blending_plan_params (snd (init example_stages_missing_overlap example_constructed_service))
      = example_zero_blending_plan\<lparr>tool_radius := 1, margin := 1\<rparr>
 \<and> fst (snd (surface_detection_server_callback example_stages_missing_overlap
        (example_request GET_CURRENT_PARAMETERS False 0 0) example_response
        (snd (init example_stages_missing_overlap example_constructed_service))))
      = example_response\<lparr>robot_scan := 3, surface_detection := 2\<rparr>
 \<and> fst (snd (surface_detection_server_callback example_stages_missing_overlap
        (example_request GET_DEFAULT_PARAMETERS False 0 0) example_response
        (snd (init example_stages_missing_overlap example_constructed_service))))
      = example_response\<lparr>robot_scan := 0, surface_detection := 0\<rparr>"
proof -
  have loaded: "\<not> fst (load_all_parameters example_stages_missing_overlap
            (load_publish_region_point_cloud example_stages_missing_overlap
               example_constructed_service))"
    by (simp add: load_publish_region_point_cloud_def load_all_parameters_def
        load_blending_parameters_def getParam_def and_also_def
        example_stages_missing_overlap_def example_stages_simps)
  show ?thesis
    using loaded
    by (simp add: example_init_missing_overlap surface_detection_server_callback_def
        example_request_simps example_constructed_service_simps example_response_def)
qed

lemma select_nonempty_targets:
  assumes "select_action req = SELECT \<or> select_action req = DESELECT"
    and "select_surfaces req \<noteq> []"
  shows "select_surface_server_callback stg req s = Inl IndexOutOfRange"
  using assms
  by (auto simp: select_surface_server_callback_def select_loop_fault)

text \<open>
  Claim C8. A \<^verbatim>\<open>SELECT\<close> or \<^verbatim>\<open>DESELECT\<close> request whose target list is not empty should
  update the flag of each listed surface once and return. The handler does not return: the
  condition of its loop is the size of the list, so the loop goes on after the last target
  and reads the list past its end. With the one target \<open>7\<close>, neither request has a result,
  and the two calls \<^verbatim>\<open>SELECT_ALL\<close>, \<^verbatim>\<open>DESELECT\<close> of \<open>7\<close> are not both served. The loop over
  the meshes in \<^verbatim>\<open>find_surfaces\<close> compares its counter with the size.
\<close>

theorem select_callback_reads_past_end:
  "select_surface_server_callback example_stages
      \<lparr>select_action = DESELECT, select_surfaces = [7]\<rparr> example_service = Inl IndexOutOfRange
   \<and> select_surface_server_callback example_stages
      \<lparr>select_action = SELECT, select_surfaces = [7]\<rparr> example_service = Inl IndexOutOfRange
   \<and> serve example_stages
      [SelectSurface \<lparr>select_action = SELECT_ALL, select_surfaces = []\<rparr>,
       SelectSurface \<lparr>select_action = DESELECT, select_surfaces = [7]\<rparr>] example_service
      = Inl IndexOutOfRange"
proof -
  have stops: "select_surface_server_callback example_stages
      \<lparr>select_action = a, select_surfaces = [7]\<rparr> s = Inl IndexOutOfRange"
    if "a = SELECT \<or> a = DESELECT" for a s
    using that by (intro select_nonempty_targets) simp_all
  have first: "select_surface_server_callback example_stages
      \<lparr>select_action = SELECT_ALL, select_surfaces = []\<rparr> example_service
      = Inr (True, select_all example_stages True example_service)"
    by (simp add: select_surface_server_callback_def)
  show ?thesis
    by (simp add: serve_call_def stops first)
qed

end
